theory Spec2Isabelle
  imports Complex_Main
begin

section \<open>Characters and strings\<close>

text \<open>
  JavaScript strings are modelled as \<^typ>\<open>string\<close>, one \<^typ>\<open>char\<close> per code unit.
  The character classes below are the ASCII ranges that the source's regular expressions
  name (\<open>\d\<close>, \<open>\w\<close>, \<open>\s\<close>, \<open>[A-Za-z]\<close>); case mapping is modelled on ASCII letters.
  JavaScript numbers are modelled as exact reals (no rounding error, no NaN, no infinities).
\<close>

definition isDigit :: "char \<Rightarrow> bool" where
  "isDigit c = (48 \<le> (of_char c :: nat) \<and> (of_char c :: nat) \<le> 57)"

definition isUpper :: "char \<Rightarrow> bool" where
  "isUpper c = (65 \<le> (of_char c :: nat) \<and> (of_char c :: nat) \<le> 90)"

definition isLower :: "char \<Rightarrow> bool" where
  "isLower c = (97 \<le> (of_char c :: nat) \<and> (of_char c :: nat) \<le> 122)"

definition isAlpha :: "char \<Rightarrow> bool" where
  "isAlpha c = (isUpper c \<or> isLower c)"

text \<open>\<open>\w\<close>: \<open>[A-Za-z0-9_]\<close>.\<close>

definition isWordChar :: "char \<Rightarrow> bool" where
  "isWordChar c = (isAlpha c \<or> isDigit c \<or> c = CHR ''_'')"

text \<open>\<open>\s\<close> on ASCII: tab, line feed, vertical tab, form feed, carriage return, space.\<close>

definition isSpace :: "char \<Rightarrow> bool" where
  "isSpace c = ((9 \<le> (of_char c :: nat) \<and> (of_char c :: nat) \<le> 13) \<or> c = CHR '' '')"

definition toLowerChar :: "char \<Rightarrow> char" where
  "toLowerChar c = (if isUpper c then char_of ((of_char c :: nat) + 32) else c)"

definition toLowerCase :: "string \<Rightarrow> string" where
  "toLowerCase s = map toLowerChar s"

text \<open>\<open>String.prototype.includes\<close>: the needle occurs at some offset of the haystack.\<close>

fun includesStr :: "string \<Rightarrow> string \<Rightarrow> bool" where
  "includesStr [] needle = (needle = [])"
| "includesStr (c # cs) needle =
     (take (length needle) (c # cs) = needle \<or> includesStr cs needle)"

text \<open>\<open>Array.prototype.join(" ")\<close>.\<close>

fun joinSpace :: "string list \<Rightarrow> string" where
  "joinSpace [] = []"
| "joinSpace [x] = x"
| "joinSpace (x # y # ys) = x @ '' '' @ joinSpace (y # ys)"

section \<open>A backtracking matcher for the regular expressions of the source\<close>

text \<open>
  A position in the subject string is the character just before it (if any) and the rest
  of the input. \<open>matchAll r p\<close> lists every way \<open>r\<close> can match at \<open>p\<close>, as the positions
  after the match, in the order in which a backtracking engine tries them: greedy
  quantifiers try one more iteration before they try to stop. The match that
  \<open>RegExp.prototype.exec\<close> reports at \<open>p\<close> is the head of that list.
\<close>

type_synonym pos = "char option \<times> string"

datatype re =
    Cls "char \<Rightarrow> bool"
  | Bnd
  | Seq re re
  | Rep re nat nat
  | ManyC "char \<Rightarrow> bool" nat

text \<open>\<open>\b\<close>: exactly one of the two neighbouring characters is a word character.\<close>

fun atBoundary :: "pos \<Rightarrow> bool" where
  "atBoundary (pc, rest) =
     ((case pc of None \<Rightarrow> False | Some c \<Rightarrow> isWordChar c)
      \<noteq> (case rest of [] \<Rightarrow> False | c # _ \<Rightarrow> isWordChar c))"

fun matchCls :: "(char \<Rightarrow> bool) \<Rightarrow> pos \<Rightarrow> pos list" where
  "matchCls P (pc, []) = []"
| "matchCls P (pc, c # cs) = (if P c then [(Some c, cs)] else [])"

text \<open>\<open>m{lo,hi}\<close>, greedy.\<close>

fun repeat :: "(pos \<Rightarrow> pos list) \<Rightarrow> nat \<Rightarrow> nat \<Rightarrow> pos \<Rightarrow> pos list" where
  "repeat m lo 0 p = [p]"
| "repeat m lo (Suc hi) p =
     concat (map (repeat m (lo - 1) hi) (m p)) @ (if lo = 0 then [p] else [])"

text \<open>\<open>[class]{lo,}\<close>, greedy (\<open>+\<close> is \<open>{1,}\<close>).\<close>

fun manyC :: "(char \<Rightarrow> bool) \<Rightarrow> nat \<Rightarrow> pos \<Rightarrow> pos list" where
  "manyC P lo (pc, []) = (if lo = 0 then [(pc, [])] else [])"
| "manyC P lo (pc, c # cs) =
     (if P c then manyC P (lo - 1) (Some c, cs) else [])
     @ (if lo = 0 then [(pc, c # cs)] else [])"

primrec matchAll :: "re \<Rightarrow> pos \<Rightarrow> pos list" where
  "matchAll (Cls P) = matchCls P"
| "matchAll Bnd = (\<lambda>p. if atBoundary p then [p] else [])"
| "matchAll (Seq a b) = (\<lambda>p. concat (map (matchAll b) (matchAll a p)))"
| "matchAll (Rep a lo hi) = repeat (matchAll a) lo hi"
| "matchAll (ManyC P lo) = manyC P lo"

text \<open>
  A global scan (\<open>String.prototype.replace\<close> with a \<open>/g\<close> pattern) cuts the subject into
  copied characters and matched spans: at each position the first match is taken and the
  scan resumes after it; where nothing matches, one character is copied. An empty match
  is recorded and the scan advances by one character.
\<close>

datatype seg = Lit char | Hit string

fun scan :: "re \<Rightarrow> char option \<Rightarrow> string \<Rightarrow> seg list" where
  "scan r pc s =
     (case matchAll r (pc, s) of
        [] \<Rightarrow> (case s of [] \<Rightarrow> [] | c # cs \<Rightarrow> Lit c # scan r (Some c) cs)
      | (pc', s') # _ \<Rightarrow>
          if length s' < length s
          then Hit (take (length s - length s') s) # scan r pc' s'
          else (case s of [] \<Rightarrow> [Hit []] | c # cs \<Rightarrow> Hit [] # Lit c # scan r (Some c) cs))"

declare scan.simps [simp del]

text \<open>The replaced string: every matched span is passed to the replacer.\<close>

fun render :: "(string \<Rightarrow> string) \<Rightarrow> seg \<Rightarrow> string" where
  "render f (Lit c) = [c]"
| "render f (Hit m) = f m"

definition replaceAll :: "re \<Rightarrow> (string \<Rightarrow> string) \<Rightarrow> string \<Rightarrow> string" where
  "replaceAll r f s = concat (map (render f) (scan r None s))"

fun hits :: "seg list \<Rightarrow> string list" where
  "hits [] = []"
| "hits (Lit c # xs) = hits xs"
| "hits (Hit m # xs) = m # hits xs"

text \<open>\<open>RegExp.prototype.test\<close> without \<open>/g\<close>: is there a match at some offset.\<close>

fun test :: "re \<Rightarrow> char option \<Rightarrow> string \<Rightarrow> bool" where
  "test r pc [] = (matchAll r (pc, []) \<noteq> [])"
| "test r pc (c # cs) = (matchAll r (pc, c # cs) \<noteq> [] \<or> test r (Some c) cs)"

section \<open>PII scrubber\<close>

abbreviation digit :: re where "digit \<equiv> Cls isDigit"
abbreviation opt :: "re \<Rightarrow> re" where "opt r \<equiv> Rep r 0 1"
abbreviation times :: "re \<Rightarrow> nat \<Rightarrow> re" where "times r n \<equiv> Rep r n n"

text \<open>\<open>[-\s]\<close> and \<open>[-.\s]\<close>.\<close>

definition dashSpace :: "char \<Rightarrow> bool" where
  "dashSpace c = (c = CHR ''-'' \<or> isSpace c)"

definition dashDotSpace :: "char \<Rightarrow> bool" where
  "dashDotSpace c = (c = CHR ''-'' \<or> c = CHR ''.'' \<or> isSpace c)"

text \<open>\<open>[A-Za-z0-9._%+\-]\<close> and \<open>[A-Za-z0-9.\-]\<close>.\<close>

definition emailLocal :: "char \<Rightarrow> bool" where
  "emailLocal c = (isAlpha c \<or> isDigit c \<or> c \<in> set ''._%+-'')"

definition emailDomain :: "char \<Rightarrow> bool" where
  "emailDomain c = (isAlpha c \<or> isDigit c \<or> c \<in> set ''.-'')"

definition lit :: "char \<Rightarrow> re" where
  "lit c = Cls (\<lambda>x. x = c)"

text \<open>\<open>/\b\d{3}[-\s]\d{2}[-\s]\d{4}\b/g\<close>\<close>

definition ssnPattern :: re where
  "ssnPattern =
     Seq Bnd (Seq (times digit 3) (Seq (Cls dashSpace) (Seq (times digit 2)
       (Seq (Cls dashSpace) (Seq (times digit 4) Bnd)))))"

text \<open>\<open>/\b(?:\d{4}[-\s]?){2,4}\d{1,4}\b/g\<close>\<close>

definition ccPattern :: re where
  "ccPattern =
     Seq Bnd (Seq (Rep (Seq (times digit 4) (opt (Cls dashSpace))) 2 4)
       (Seq (Rep digit 1 4) Bnd))"

text \<open>\<open>/\b[A-Za-z0-9._%+\-]+@[A-Za-z0-9.\-]+\.[A-Za-z]{2,}\b/g\<close>\<close>

definition emailPattern :: re where
  "emailPattern =
     Seq Bnd (Seq (ManyC emailLocal 1) (Seq (lit CHR ''@'') (Seq (ManyC emailDomain 1)
       (Seq (lit CHR ''.'') (Seq (ManyC isAlpha 2) Bnd)))))"

text \<open>\<open>/(?:\+?1[-.\s]?)?\(?\d{3}\)?[-.\s]?\d{3}[-.\s]?\d{4}\b/g\<close>\<close>

definition phonePattern :: re where
  "phonePattern =
     Seq (opt (Seq (opt (lit CHR ''+'')) (Seq (lit CHR ''1'') (opt (Cls dashDotSpace)))))
       (Seq (opt (lit CHR ''('')) (Seq (times digit 3) (Seq (opt (lit CHR '')''))
         (Seq (opt (Cls dashDotSpace)) (Seq (times digit 3) (Seq (opt (Cls dashDotSpace))
           (Seq (times digit 4) Bnd)))))))"

text \<open>
  \<open>passesLuhn\<close>: the loop runs from the last character to the first, doubling every
  second digit. \<open>parseInt\<close> of a character that is not a digit is NaN, which makes the
  final comparison false.
\<close>

definition digitVal :: "char \<Rightarrow> nat" where
  "digitVal c = (of_char c :: nat) - 48"

fun luhnLoop :: "string \<Rightarrow> nat \<Rightarrow> bool \<Rightarrow> nat" where
  "luhnLoop [] acc alternate = acc"
| "luhnLoop (c # cs) acc alternate =
     (let n = digitVal c;
          n = (if alternate then (if n * 2 > 9 then n * 2 - 9 else n * 2) else n)
      in luhnLoop cs (acc + n) (\<not> alternate))"

definition passesLuhn :: "string \<Rightarrow> bool" where
  "passesLuhn digits =
     (list_all isDigit digits \<and> luhnLoop (rev digits) 0 False mod 10 = 0)"

record ScrubResult =
  scrubbedText :: string
  piiCategoriesFound :: "string list"

text \<open>\<open>match.replace(/\D/g, "")\<close>\<close>

definition digitsOnly :: "string \<Rightarrow> string" where
  "digitsOnly m = filter isDigit m"

definition ccValid :: "string \<Rightarrow> bool" where
  "ccValid m =
     (length (digitsOnly m) \<ge> 13 \<and> length (digitsOnly m) \<le> 19 \<and> passesLuhn (digitsOnly m))"

text \<open>The replacer callback of the credit-card pattern.\<close>

definition ccReplacer :: "string \<Rightarrow> string" where
  "ccReplacer m = (if ccValid m then ''[CC REDACTED]'' else m)"

text \<open>\<open>Set.prototype.add\<close> on a set kept in insertion order.\<close>

definition setAdd :: "'a \<Rightarrow> 'a list \<Rightarrow> 'a list" where
  "setAdd x xs = (if x \<in> set xs then xs else xs @ [x])"

text \<open>One pattern whose replacement is a fixed string.\<close>

definition scrubPlain :: "string \<Rightarrow> re \<Rightarrow> string \<Rightarrow> string \<times> string list \<Rightarrow> string \<times> string list" where
  "scrubPlain name pattern replacement st =
     (let beforeText = fst st;
          scrubbed = replaceAll pattern (\<lambda>_. replacement) beforeText
      in (scrubbed, if scrubbed \<noteq> beforeText then setAdd name (snd st) else snd st))"

text \<open>The credit-card pattern: the category is recorded when the replacer redacts a span.\<close>

definition scrubCard :: "string \<times> string list \<Rightarrow> string \<times> string list" where
  "scrubCard st =
     (let spans = scan ccPattern None (fst st)
      in (concat (map (render ccReplacer) spans),
          if list_ex ccValid (hits spans) then setAdd ''credit_card'' (snd st) else snd st))"

definition scrubPii :: "string \<Rightarrow> ScrubResult" where
  "scrubPii t =
     (let st = (t, []);
          st = scrubPlain ''ssn'' ssnPattern ''[SSN REDACTED]'' st;
          st = scrubCard st;
          st = scrubPlain ''email'' emailPattern ''[EMAIL REDACTED]'' st;
          st = scrubPlain ''phone'' phonePattern ''[PHONE REDACTED]'' st
      in \<lparr>scrubbedText = fst st, piiCategoriesFound = snd st\<rparr>)"

section \<open>Feedback analyzer: data\<close>

datatype SignalType = REACTIVE | PROACTIVE

record Metadata =
  tags :: "string list option"
  votes :: "real option"
  comments_count :: "real option"
  thread_count :: "real option"
  portal :: "string option"

record DataPoint =
  dp_id :: string
  dp_source :: SignalType
  dp_title :: string
  dp_text :: string
  dp_created_at :: string
  metadata :: Metadata

text \<open>The \<open>{ id, source, title }\<close> objects of the \<open>data_points\<close> arrays.\<close>

record PointRef =
  ref_id :: string
  ref_source :: SignalType
  ref_title :: string

record ThemeMatch =
  theme_id :: string
  label :: string
  category :: string
  reactive_count :: nat
  proactive_count :: nat
  convergent :: bool
  frequency_score :: real
  severity_score :: real
  vote_momentum_score :: real
  priority_score :: real
  data_points :: "PointRef list"

record EmergingTheme =
  ngram :: string
  frequency :: nat
  et_data_points :: "PointRef list"

record AnalysisResult =
  config_version :: real
  known_themes_count :: nat
  total_data_points :: nat
  ar_reactive_count :: nat
  ar_proactive_count :: nat
  themes :: "ThemeMatch list"
  emerging_themes :: "EmergingTheme list"
  unmatched_count :: nat

record ThemeDefinition =
  td_id :: string
  td_label :: string
  td_keywords :: "string list"
  td_category :: string

record ThemesConfig =
  version :: real
  cfg_themes :: "ThemeDefinition list"
  stop_words :: "string list"
  emerging_theme_min_frequency :: real

record FormattedConversation =
  fc_id :: int
  fc_number :: int
  subject :: string
  fc_status :: string
  createdAt :: string
  closedAt :: "string option"
  customerEmail :: string
  fc_tags :: "string list"
  preview :: string
  customerMessages :: "string list"
  threadCount :: real

record RequestComment =
  author :: string
  role :: string
  comment_text :: string
  comment_created_at :: "string option"

record FormattedFeatureRequest =
  fr_id :: string
  fr_title :: string
  description :: string
  fr_status :: "string option"
  fr_category :: "string option"
  votes_count :: real
  fr_comments_count :: real
  fr_portal :: string
  fr_created_at :: string
  updated_at :: string
  comments :: "RequestComment list"

section \<open>Data normalization\<close>

text \<open>The decimal rendering of an integer, as a template literal renders a conversation id.\<close>

definition digitChar :: "nat \<Rightarrow> char" where
  "digitChar n = char_of (48 + n)"

fun showNat :: "nat \<Rightarrow> string" where
  "showNat n = (if n < 10 then [digitChar n] else showNat (n div 10) @ [digitChar (n mod 10)])"

declare showNat.simps [simp del]

definition showInt :: "int \<Rightarrow> string" where
  "showInt i = (if i < 0 then CHR ''-'' # showNat (nat (- i)) else showNat (nat i))"

definition conversationToDataPoint :: "FormattedConversation \<Rightarrow> DataPoint" where
  "conversationToDataPoint conv =
     (let textParts = subject conv # preview conv # customerMessages conv
      in \<lparr>dp_id = ''hs-'' @ showInt (fc_id conv),
          dp_source = REACTIVE,
          dp_title = subject conv,
          dp_text = toLowerCase (joinSpace textParts),
          dp_created_at = createdAt conv,
          metadata = \<lparr>tags = Some (fc_tags conv), votes = None, comments_count = None,
                       thread_count = Some (threadCount conv), portal = None\<rparr>\<rparr>)"

definition featureRequestToDataPoint :: "FormattedFeatureRequest \<Rightarrow> DataPoint" where
  "featureRequestToDataPoint req =
     (let textParts = fr_title req # description req # map comment_text (comments req)
      in \<lparr>dp_id = ''pl-'' @ fr_id req,
          dp_source = PROACTIVE,
          dp_title = fr_title req,
          dp_text = toLowerCase (joinSpace textParts),
          dp_created_at = fr_created_at req,
          metadata = \<lparr>tags = None, votes = Some (votes_count req),
                       comments_count = Some (fr_comments_count req),
                       thread_count = None, portal = Some (fr_portal req)\<rparr>\<rparr>)"

section \<open>Theme matching\<close>

text \<open>
  A single-word keyword is matched by \<open>new RegExp("\\b" + escapeRegex(kw) + "\\b", "i")\<close>.
  \<open>escapeRegex\<close> quotes every metacharacter, so the pattern is the keyword taken
  literally, compared without regard to case, between two word boundaries.
\<close>

definition ciChar :: "char \<Rightarrow> re" where
  "ciChar c = Cls (\<lambda>x. toLowerChar x = toLowerChar c)"

definition wordRegex :: "string \<Rightarrow> re" where
  "wordRegex kw = Seq Bnd (foldr (\<lambda>c r. Seq (ciChar c) r) kw Bnd)"

fun matchesTheme :: "string \<Rightarrow> string list \<Rightarrow> bool" where
  "matchesTheme txt [] = False"
| "matchesTheme txt (kw # kws) =
     (if CHR '' '' \<in> set kw
      then (if includesStr txt (toLowerCase kw) then True else matchesTheme txt kws)
      else (if test (wordRegex kw) None txt then True else matchesTheme txt kws))"

section \<open>Scoring\<close>

definition SEVERITY_TAG_BOOST :: "string \<Rightarrow> real option" where
  "SEVERITY_TAG_BOOST =
     map_of [(''bug'', 20), (''urgent'', 25), (''escalation'', 30), (''escalated'', 30),
             (''critical'', 25)]"

text \<open>
  The tag loop: the first tag with a (truthy) table entry gives the boost, then \<open>break\<close>.
  The table is a plain object, looked up here by its own keys; a tag that names a property
  inherited from \<open>Object.prototype\<close> (such as \<open>constructor\<close>), like a date string that
  does not parse, puts a value that is not a number into the sum and is outside this model.
\<close>

fun tagBoost :: "string list \<Rightarrow> real" where
  "tagBoost [] = 0"
| "tagBoost (tag # rest) =
     (case SEVERITY_TAG_BOOST (toLowerCase tag) of
        None \<Rightarrow> tagBoost rest
      | Some boost \<Rightarrow> if boost \<noteq> 0 then boost else tagBoost rest)"

text \<open>
  The body of the loop over the reactive points. \<open>getTime\<close> stands for
  \<open>new Date(s).getTime()\<close>, the epoch milliseconds of a date string, and \<open>now\<close> for the
  value that \<open>Date.now()\<close> returned.
\<close>

definition threadTerm :: "DataPoint \<Rightarrow> real" where
  "threadTerm p =
     (let threads = (case thread_count (metadata p) of None \<Rightarrow> 1 | Some t \<Rightarrow> t)
      in min (threads * 10) 50)"

definition ageDays :: "(string \<Rightarrow> real) \<Rightarrow> real \<Rightarrow> DataPoint \<Rightarrow> real" where
  "ageDays getTime now p = (now - getTime (dp_created_at p)) / (1000 * 60 * 60 * 24)"

definition pointScore :: "(string \<Rightarrow> real) \<Rightarrow> real \<Rightarrow> DataPoint \<Rightarrow> real" where
  "pointScore getTime now p =
     threadTerm p
     + 30 * exp (- ageDays getTime now p / 7)
     + tagBoost (case tags (metadata p) of None \<Rightarrow> [] | Some ts \<Rightarrow> ts)"

definition computeSeverityScore :: "(string \<Rightarrow> real) \<Rightarrow> real \<Rightarrow> DataPoint list \<Rightarrow> real" where
  "computeSeverityScore getTime now points =
     (let reactive = filter (\<lambda>p. dp_source p = REACTIVE) points
      in if length reactive = 0 then 0
         else (let totalScore = fold (\<lambda>p total. total + pointScore getTime now p) reactive 0
               in min (totalScore / real (length reactive)) 100))"

definition voteStep :: "DataPoint \<Rightarrow> real \<times> real \<Rightarrow> real \<times> real" where
  "voteStep p acc =
     (fst acc + (case votes (metadata p) of None \<Rightarrow> 0 | Some v \<Rightarrow> v),
      snd acc + (case comments_count (metadata p) of None \<Rightarrow> 0 | Some c \<Rightarrow> c))"

definition computeVoteMomentum :: "DataPoint list \<Rightarrow> real" where
  "computeVoteMomentum points =
     (let proactive = filter (\<lambda>p. dp_source p = PROACTIVE) points
      in if length proactive = 0 then 0
         else (let totals = fold voteStep proactive (0, 0)
               in fst totals * 0.8 + snd totals * 0.2))"

text \<open>\<open>Math.round(n * 100) / 100\<close>; \<open>Math.round\<close> rounds halves upwards.\<close>

definition round2 :: "real \<Rightarrow> real" where
  "round2 n = real_of_int \<lfloor>n * 100 + 1 / 2\<rfloor> / 100"

text \<open>\<open>Math.max(...xs, d)\<close>\<close>

definition mathMax :: "'a::linorder list \<Rightarrow> 'a \<Rightarrow> 'a" where
  "mathMax xs d = fold max xs d"

section \<open>Emerging theme detection\<close>

text \<open>\<open>String.prototype.split(/\s+/)\<close>: the pieces between maximal runs of white space.\<close>

function splitWs :: "string \<Rightarrow> string \<Rightarrow> string list" where
  "splitWs acc [] = [rev acc]"
| "splitWs acc (c # cs) =
     (if isSpace c then rev acc # splitWs [] (dropWhile isSpace cs)
      else splitWs (c # acc) cs)"
  by pat_completeness auto
termination
  by (relation "measure (\<lambda>(acc, s). length s)")
     (auto simp: length_dropWhile_le less_Suc_eq_le)

text \<open>\<open>text.replace(/[^a-z0-9\s]/g, " ")\<close>\<close>

definition keepAlnum :: "char \<Rightarrow> char" where
  "keepAlnum c = (if isLower c \<or> isDigit c \<or> isSpace c then c else CHR '' '')"

definition tokenize :: "string \<Rightarrow> string list \<Rightarrow> string list" where
  "tokenize txt stopWords =
     filter (\<lambda>w. length w > 2 \<and> w \<notin> set stopWords) (splitWs [] (map keepAlnum txt))"

fun bigrams :: "string list \<Rightarrow> string list" where
  "bigrams (a # b # rest) = (a @ '' '' @ b) # bigrams (b # rest)"
| "bigrams _ = []"

fun trigrams :: "string list \<Rightarrow> string list" where
  "trigrams (a # b # c # rest) = (a @ '' '' @ b @ '' '' @ c) # trigrams (b # c # rest)"
| "trigrams _ = []"

definition extractNgrams :: "string list \<Rightarrow> string list" where
  "extractNgrams tokens = bigrams tokens @ trigrams tokens"

text \<open>
  \<open>ngramToPoints\<close> is a \<open>Map\<close> from n-gram to a \<open>Set\<close> of point indices; both iterate in
  insertion order, so they are association lists and lists here. \<open>mapAddPoint\<close> is the pair
  of statements \<open>if (!m.has(ng)) m.set(ng, new Set()); m.get(ng).add(i)\<close>.
\<close>

type_synonym ngramMap = "(string \<times> nat list) list"

fun mapAddPoint :: "string \<Rightarrow> nat \<Rightarrow> ngramMap \<Rightarrow> ngramMap" where
  "mapAddPoint ng i [] = [(ng, setAdd i [])]"
| "mapAddPoint ng i ((k, pts) # m) =
     (if k = ng then (k, setAdd i pts) # m else (k, pts) # mapAddPoint ng i m)"

text \<open>The inner loop over the n-grams of point \<open>i\<close>, with the per-point \<open>seen\<close> set.\<close>

definition ngramStep :: "nat \<Rightarrow> string \<Rightarrow> string list \<times> ngramMap \<Rightarrow> string list \<times> ngramMap" where
  "ngramStep i ng st =
     (if ng \<in> set (fst st) then st else (setAdd ng (fst st), mapAddPoint ng i (snd st)))"

definition pointStep :: "string list \<Rightarrow> nat \<times> DataPoint \<Rightarrow> ngramMap \<Rightarrow> ngramMap" where
  "pointStep stopWords ip m =
     (let tokens = tokenize (dp_text (snd ip)) stopWords;
          ngrams = extractNgrams tokens
      in snd (fold (ngramStep (fst ip)) ngrams ([], m)))"

definition buildNgramMap :: "DataPoint list \<Rightarrow> string list \<Rightarrow> ngramMap" where
  "buildNgramMap unmatchedPoints stopWords =
     fold (pointStep stopWords) (enumerate 0 unmatchedPoints) []"

text \<open>
  \<open>[...entries].filter(size >= minFrequency).sort((a, b) => b.size - a.size)\<close>; the sort of
  an array is stable.
\<close>

definition sortedCandidates :: "ngramMap \<Rightarrow> real \<Rightarrow> ngramMap" where
  "sortedCandidates m minFrequency =
     sort_key (\<lambda>e. - int (length (snd e)))
       (filter (\<lambda>e. real (length (snd e)) \<ge> minFrequency) m)"

text \<open>The greedy loop: \<open>claimed\<close> is the set of indices already given to a theme.\<close>

fun claimLoop :: "real \<Rightarrow> nat list \<Rightarrow> ngramMap \<Rightarrow> ngramMap" where
  "claimLoop minFrequency claimed [] = []"
| "claimLoop minFrequency claimed ((ng, pointIndices) # rest) =
     (let unclaimed = filter (\<lambda>i. i \<notin> set claimed) pointIndices
      in if real (length unclaimed) < minFrequency
         then claimLoop minFrequency claimed rest
         else (ng, unclaimed) # claimLoop minFrequency (fold setAdd unclaimed claimed) rest)"

definition pointRef :: "DataPoint \<Rightarrow> PointRef" where
  "pointRef p = \<lparr>ref_id = dp_id p, ref_source = dp_source p, ref_title = dp_title p\<rparr>"

text \<open>The n-grams that become themes, each with the indices of the points it claims.\<close>

definition emergingClaims :: "DataPoint list \<Rightarrow> string list \<Rightarrow> real \<Rightarrow> ngramMap" where
  "emergingClaims unmatchedPoints stopWords minFrequency =
     claimLoop minFrequency []
       (sortedCandidates (buildNgramMap unmatchedPoints stopWords) minFrequency)"

definition toEmergingTheme :: "DataPoint list \<Rightarrow> string \<times> nat list \<Rightarrow> EmergingTheme" where
  "toEmergingTheme unmatchedPoints e =
     \<lparr>ngram = fst e,
      frequency = length (snd e),
      et_data_points = map (\<lambda>i. pointRef (unmatchedPoints ! i)) (snd e)\<rparr>"

definition detectEmergingThemes :: "DataPoint list \<Rightarrow> string list \<Rightarrow> real \<Rightarrow> EmergingTheme list" where
  "detectEmergingThemes unmatchedPoints stopWords minFrequency =
     map (toEmergingTheme unmatchedPoints)
       (emergingClaims unmatchedPoints stopWords minFrequency)"

section \<open>Main analysis function\<close>

text \<open>
  \<open>themeMatches\<close> is a \<open>Map\<close> from theme id to the array of matched points, initialised
  with an empty array for every configured theme; \<open>matchedIds\<close> is a \<open>Set\<close> of point ids.
\<close>

type_synonym matchState = "(string \<Rightarrow> DataPoint list) \<times> string list"

definition matchStep :: "DataPoint \<Rightarrow> ThemeDefinition \<Rightarrow> matchState \<Rightarrow> matchState" where
  "matchStep dp theme st =
     (if matchesTheme (dp_text dp) (td_keywords theme)
      then ((fst st)(td_id theme := fst st (td_id theme) @ [dp]), setAdd (dp_id dp) (snd st))
      else st)"

definition matchPoints :: "ThemeDefinition list \<Rightarrow> DataPoint list \<Rightarrow> matchState" where
  "matchPoints ths dataPoints =
     fold (\<lambda>dp st. fold (matchStep dp) ths st) dataPoints (\<lambda>_. [], [])"

text \<open>The weighted sum, before rounding.\<close>

definition priorityOf :: "real \<Rightarrow> real \<Rightarrow> real \<Rightarrow> real \<Rightarrow> real" where
  "priorityOf frequencyScore severityScore voteMomentumScore convergenceBoost =
     (frequencyScore * 0.35 + severityScore * 0.35 + voteMomentumScore * 0.3)
     * convergenceBoost"

text \<open>
  One iteration of the loop that builds the \<open>ThemeMatch\<close> results: nothing for a theme
  without matched points. \<open>now\<close> is the reading of \<open>Date.now()\<close> inside the call of
  \<open>computeSeverityScore\<close> of this iteration.
\<close>

definition buildTheme ::
  "(string \<Rightarrow> real) \<Rightarrow> real \<Rightarrow> (string \<Rightarrow> DataPoint list) \<Rightarrow> nat list \<Rightarrow> real list
   \<Rightarrow> nat \<Rightarrow> real \<Rightarrow> ThemeDefinition list \<Rightarrow> nat \<Rightarrow> ThemeMatch option" where
  "buildTheme getTime now themeMatches frequencyCounts rawVoteMomentums
     maxFrequency maxVoteMomentum ths i =
     (let theme = ths ! i;
          points = themeMatches (td_id theme)
      in if length points = 0 then None
         else
           (let reactiveCount = length (filter (\<lambda>p. dp_source p = REACTIVE) points);
                proactiveCount = length (filter (\<lambda>p. dp_source p = PROACTIVE) points);
                convergent = (reactiveCount > 0 \<and> proactiveCount > 0);
                frequencyScore = real (frequencyCounts ! i) / real maxFrequency * 100;
                severityScore = computeSeverityScore getTime now points;
                voteMomentumScore = rawVoteMomentums ! i / maxVoteMomentum * 100;
                convergenceBoost = (if convergent then 2 else 1);
                priorityScore =
                  priorityOf frequencyScore severityScore voteMomentumScore convergenceBoost
            in Some \<lparr>theme_id = td_id theme,
                     label = td_label theme,
                     category = td_category theme,
                     reactive_count = reactiveCount,
                     proactive_count = proactiveCount,
                     convergent = convergent,
                     frequency_score = round2 frequencyScore,
                     severity_score = round2 severityScore,
                     vote_momentum_score = round2 voteMomentumScore,
                     priority_score = round2 priorityScore,
                     data_points = map pointRef points\<rparr>))"

text \<open>
  The \<open>ThemeMatch\<close> array before it is sorted. \<open>clock i\<close> is what \<open>Date.now()\<close> returns
  during iteration \<open>i\<close> (\<open>computeSeverityScore\<close> reads the clock at most once per call).
\<close>

definition buildThemes ::
  "(string \<Rightarrow> real) \<Rightarrow> (nat \<Rightarrow> real) \<Rightarrow> ThemeDefinition list \<Rightarrow> (string \<Rightarrow> DataPoint list)
   \<Rightarrow> ThemeMatch list" where
  "buildThemes getTime clock ths themeMatches =
     (let frequencyCounts = map (\<lambda>theme. length (themeMatches (td_id theme))) ths;
          rawVoteMomentums = map (\<lambda>theme. computeVoteMomentum (themeMatches (td_id theme))) ths;
          maxFrequency = mathMax frequencyCounts 1;
          maxVoteMomentum = mathMax rawVoteMomentums 1
      in List.map_filter
           (\<lambda>i. buildTheme getTime (clock i) themeMatches frequencyCounts rawVoteMomentums
                   maxFrequency maxVoteMomentum ths i)
           [0 ..< length ths])"

text \<open>\<open>themes.sort((a, b) => b.priority_score - a.priority_score)\<close>; the sort is stable.\<close>

definition sortThemes :: "ThemeMatch list \<Rightarrow> ThemeMatch list" where
  "sortThemes ts = sort_key (\<lambda>t. - priority_score t) ts"

definition analyzeFeedback ::
  "(string \<Rightarrow> real) \<Rightarrow> (nat \<Rightarrow> real) \<Rightarrow> FormattedConversation list
   \<Rightarrow> FormattedFeatureRequest list \<Rightarrow> ThemesConfig \<Rightarrow> AnalysisResult" where
  "analyzeFeedback getTime clock conversations featureRequests config =
     (let dataPoints = map conversationToDataPoint conversations
                       @ map featureRequestToDataPoint featureRequests;
          st = matchPoints (cfg_themes config) dataPoints;
          themeMatches = fst st;
          matchedIds = snd st;
          ths = sortThemes (buildThemes getTime clock (cfg_themes config) themeMatches);
          unmatchedPoints = filter (\<lambda>dp. dp_id dp \<notin> set matchedIds) dataPoints;
          emergingThemes = detectEmergingThemes unmatchedPoints (stop_words config)
                             (emerging_theme_min_frequency config)
      in \<lparr>config_version = version config,
          known_themes_count = length (cfg_themes config),
          total_data_points = length dataPoints,
          ar_reactive_count = length conversations,
          ar_proactive_count = length featureRequests,
          themes = ths,
          emerging_themes = emergingThemes,
          unmatched_count = length unmatchedPoints\<rparr>)"

section \<open>Statements of the specification, and example inputs\<close>







text \<open>A support ticket created at the instant of scoring.\<close>

definition ticket :: "string list option \<Rightarrow> real option \<Rightarrow> DataPoint" where
  "ticket ts tc =
     \<lparr>dp_id = ''hs-1'', dp_source = REACTIVE, dp_title = ''Login fails'',
      dp_text = ''login fails'', dp_created_at = ''1970-01-01T00:00:00Z'',
      metadata = \<lparr>tags = ts, votes = None, comments_count = None, thread_count = tc,
                   portal = None\<rparr>\<rparr>"

text \<open>Absent optional fields replaced by the defaults that the scoring functions use.\<close>

definition fillDefaults :: "DataPoint \<Rightarrow> DataPoint" where
  "fillDefaults p =
     p\<lparr>metadata := (metadata p)
        \<lparr>tags := Some (case tags (metadata p) of None \<Rightarrow> [] | Some ts \<Rightarrow> ts),
         votes := Some (case votes (metadata p) of None \<Rightarrow> 0 | Some v \<Rightarrow> v),
         comments_count := Some (case comments_count (metadata p) of None \<Rightarrow> 0 | Some c \<Rightarrow> c),
         thread_count := Some (case thread_count (metadata p) of None \<Rightarrow> 1 | Some t \<Rightarrow> t)\<rparr>\<rparr>"

text \<open>A feature request with the given id and text, and five of them.\<close>

definition request :: "string \<Rightarrow> string \<Rightarrow> DataPoint" where
  "request i t =
     \<lparr>dp_id = ''pl-'' @ i, dp_source = PROACTIVE, dp_title = t, dp_text = t,
      dp_created_at = ''1970-01-01T00:00:00Z'',
      metadata = \<lparr>tags = None, votes = Some 0, comments_count = Some 0, thread_count = None,
                   portal = Some ''main''\<rparr>\<rparr>"

definition darkModeRequests :: "DataPoint list" where
  "darkModeRequests =
     [request ''1'' ''dark mode'', request ''2'' ''dark mode'',
      request ''3'' ''dark mode export csv'', request ''4'' ''export csv'',
      request ''5'' ''export csv'']"


text \<open>The text that the credit-card pattern scans, and the spans it finds there.\<close>

definition afterSsn :: "string \<Rightarrow> string" where
  "afterSsn t = fst (scrubPlain ''ssn'' ssnPattern ''[SSN REDACTED]'' (t, []))"

definition ccCandidates :: "string \<Rightarrow> string list" where
  "ccCandidates t = hits (scan ccPattern None (afterSsn t))"




text \<open>The stages of \<open>analyzeFeedback\<close>, by name.\<close>

definition dataPointsOf :: "FormattedConversation list \<Rightarrow> FormattedFeatureRequest list \<Rightarrow> DataPoint list" where
  "dataPointsOf conversations featureRequests =
     map conversationToDataPoint conversations @ map featureRequestToDataPoint featureRequests"

definition themeMatchesOf ::
  "FormattedConversation list \<Rightarrow> FormattedFeatureRequest list \<Rightarrow> ThemesConfig
   \<Rightarrow> string \<Rightarrow> DataPoint list" where
  "themeMatchesOf conversations featureRequests config =
     fst (matchPoints (cfg_themes config) (dataPointsOf conversations featureRequests))"

definition unsortedThemes ::
  "(string \<Rightarrow> real) \<Rightarrow> (nat \<Rightarrow> real) \<Rightarrow> FormattedConversation list
   \<Rightarrow> FormattedFeatureRequest list \<Rightarrow> ThemesConfig \<Rightarrow> ThemeMatch list" where
  "unsortedThemes getTime clock conversations featureRequests config =
     buildThemes getTime clock (cfg_themes config)
       (themeMatchesOf conversations featureRequests config)"

text \<open>Iteration \<open>i\<close> of the loop of \<open>buildThemes\<close>.\<close>

definition themeEntry ::
  "(string \<Rightarrow> real) \<Rightarrow> (nat \<Rightarrow> real) \<Rightarrow> ThemeDefinition list \<Rightarrow> (string \<Rightarrow> DataPoint list)
   \<Rightarrow> nat \<Rightarrow> ThemeMatch option" where
  "themeEntry getTime clock ths tm i =
     buildTheme getTime (clock i) tm
       (map (\<lambda>theme. length (tm (td_id theme))) ths)
       (map (\<lambda>theme. computeVoteMomentum (tm (td_id theme))) ths)
       (mathMax (map (\<lambda>theme. length (tm (td_id theme))) ths) 1)
       (mathMax (map (\<lambda>theme. computeVoteMomentum (tm (td_id theme))) ths) 1)
       ths i"

text \<open>
  An example run: one support ticket and four feature requests, all created at instant 0
  of the clock, against three themes. \<open>rq\<close> and \<open>tk\<close> are the data points they become,
  \<open>scoredTheme\<close> an entry of the result.
\<close>

definition epoch :: "string \<Rightarrow> real" where
  "epoch s = 0"

definition supportTicket :: FormattedConversation where
  "supportTicket =
     \<lparr>fc_id = 101, fc_number = 7, subject = ''Billing page broken'', fc_status = ''active'',
      createdAt = ''1970-01-01T00:00:00Z'', closedAt = None, customerEmail = ''[REDACTED]'',
      fc_tags = [], preview = ''cannot open invoices'', customerMessages = [],
      threadCount = 0\<rparr>"

definition featureRequest :: "string \<Rightarrow> string \<Rightarrow> real \<Rightarrow> FormattedFeatureRequest" where
  "featureRequest i t v =
     \<lparr>fr_id = i, fr_title = t, description = ''please'', fr_status = None, fr_category = None,
      votes_count = v, fr_comments_count = 0, fr_portal = ''main'',
      fr_created_at = ''1970-01-01T00:00:00Z'', updated_at = ''1970-01-01T00:00:00Z'',
      comments = []\<rparr>"

definition theme :: "string \<Rightarrow> string \<Rightarrow> ThemeDefinition" where
  "theme i kw = \<lparr>td_id = i, td_label = i, td_keywords = [kw], td_category = ''product''\<rparr>"

definition exampleConfig :: ThemesConfig where
  "exampleConfig =
     \<lparr>version = 1,
      cfg_themes = [theme ''calendar'' ''calendar'', theme ''sync'' ''sync'',
                    theme ''billing'' ''billing''],
      stop_words = [], emerging_theme_min_frequency = 3\<rparr>"

definition exampleRequests :: "FormattedFeatureRequest list" where
  "exampleRequests =
     [featureRequest ''1'' ''Billing export'' 0, featureRequest ''2'' ''Calendar sync'' 5,
      featureRequest ''3'' ''calendar sync'' 0, featureRequest ''4'' ''Sync my calendar'' 0]"

definition rq :: "string \<Rightarrow> string \<Rightarrow> string \<Rightarrow> real \<Rightarrow> DataPoint" where
  "rq i t lower v = \<lparr>dp_id = ''pl-'' @ i, dp_source = PROACTIVE, dp_title = t, dp_text = lower,
      dp_created_at = ''1970-01-01T00:00:00Z'',
      metadata = \<lparr>tags = None, votes = Some v, comments_count = Some 0, thread_count = None,
                   portal = Some ''main''\<rparr>\<rparr>"

definition tk :: DataPoint where
  "tk = \<lparr>dp_id = ''hs-101'', dp_source = REACTIVE, dp_title = ''Billing page broken'',
      dp_text = ''billing page broken cannot open invoices'',
      dp_created_at = ''1970-01-01T00:00:00Z'',
      metadata = \<lparr>tags = Some [], votes = None, comments_count = None, thread_count = Some 0,
                   portal = None\<rparr>\<rparr>"

definition calendarPoints :: "DataPoint list" where
  "calendarPoints =
     [rq ''2'' ''Calendar sync'' ''calendar sync please'' 5,
      rq ''3'' ''calendar sync'' ''calendar sync please'' 0,
      rq ''4'' ''Sync my calendar'' ''sync my calendar please'' 0]"

definition billingPoints :: "DataPoint list" where
  "billingPoints = [tk, rq ''1'' ''Billing export'' ''billing export please'' 0]"

definition scoredTheme ::
  "string \<Rightarrow> nat \<Rightarrow> nat \<Rightarrow> bool \<Rightarrow> real \<Rightarrow> real \<Rightarrow> real \<Rightarrow> real \<Rightarrow> DataPoint list \<Rightarrow> ThemeMatch" where
  "scoredTheme i r p c f s v pr pts =
     \<lparr>theme_id = i, label = i, category = ''product'', reactive_count = r,
      proactive_count = p, convergent = c, frequency_score = f, severity_score = s,
      vote_momentum_score = v, priority_score = pr, data_points = map pointRef pts\<rparr>"

text \<open>The raw values that the normalization divides by their maximum.\<close>

definition frequencyCountsOf :: "ThemeDefinition list \<Rightarrow> (string \<Rightarrow> DataPoint list) \<Rightarrow> nat list" where
  "frequencyCountsOf ths tm = map (\<lambda>theme. length (tm (td_id theme))) ths"

definition rawVoteMomentumsOf :: "ThemeDefinition list \<Rightarrow> (string \<Rightarrow> DataPoint list) \<Rightarrow> real list" where
  "rawVoteMomentumsOf ths tm = map (\<lambda>theme. computeVoteMomentum (tm (td_id theme))) ths"

text \<open>A theme entry without the two scores that depend on the clock.\<close>

definition clockFree :: "ThemeMatch \<Rightarrow> ThemeMatch" where
  "clockFree t = t\<lparr>severity_score := 0, priority_score := 0\<rparr>"

text \<open>A second run: a single feature request with one vote.\<close>

definition singleVote :: "FormattedFeatureRequest list" where
  "singleVote = [featureRequest ''9'' ''Calendar sync'' 1]"

definition singleVotePoints :: "DataPoint list" where
  "singleVotePoints = [rq ''9'' ''Calendar sync'' ''calendar sync please'' 1]"

section \<open>Severity\<close>




lemma severity_ticket:
  "computeSeverityScore (\<lambda>_. 0) 0 [ticket ts tc] =
     min (min ((case tc of None \<Rightarrow> 1 | Some t \<Rightarrow> t) * 10) 50 + 30
          + tagBoost (case ts of None \<Rightarrow> [] | Some x \<Rightarrow> x)) 100"
  by (simp add: computeSeverityScore_def pointScore_def threadTerm_def ageDays_def ticket_def)






section \<open>Missing optional fields\<close>

lemma threadTerm_fillDefaults: "threadTerm (fillDefaults p) = threadTerm p"
  by (simp add: threadTerm_def fillDefaults_def split: option.splits)

lemma pointScore_fillDefaults:
  "pointScore getTime now (fillDefaults p) = pointScore getTime now p"
  by (simp add: pointScore_def threadTerm_fillDefaults ageDays_def)
     (simp add: fillDefaults_def split: option.splits)

lemma source_fillDefaults: "dp_source (fillDefaults p) = dp_source p"
  by (simp add: fillDefaults_def)

lemma filter_map_fillDefaults:
  "filter (\<lambda>p. dp_source p = src) (map fillDefaults ps)
     = map fillDefaults (filter (\<lambda>p. dp_source p = src) ps)"
  by (induction ps) (simp_all add: source_fillDefaults)

lemma fold_pointScore_fillDefaults:
  "fold (\<lambda>p total. total + pointScore getTime now p) (map fillDefaults ps) a
     = fold (\<lambda>p total. total + pointScore getTime now p) ps a"
  by (induction ps arbitrary: a) (simp_all add: pointScore_fillDefaults)

lemma voteStep_fillDefaults: "voteStep (fillDefaults p) acc = voteStep p acc"
  by (simp add: voteStep_def fillDefaults_def split: option.splits)

lemma fold_voteStep_fillDefaults:
  "fold voteStep (map fillDefaults ps) acc = fold voteStep ps acc"
  by (induction ps arbitrary: acc) (simp_all add: voteStep_fillDefaults)

lemma severity_fillDefaults:
  "computeSeverityScore getTime now (map fillDefaults ps) = computeSeverityScore getTime now ps"
  by (simp add: computeSeverityScore_def filter_map_fillDefaults fold_pointScore_fillDefaults
      Let_def)

lemma voteMomentum_fillDefaults:
  "computeVoteMomentum (map fillDefaults ps) = computeVoteMomentum ps"
  by (simp add: computeVoteMomentum_def filter_map_fillDefaults fold_voteStep_fillDefaults
      Let_def)

text \<open>
  C5, as stated, fails: for a reactive signal without a thread count the thread term of
  the severity is 10, not 0; such a ticket of age zero and without tags has severity 40.
\<close>

theorem absent_thread_count_counterexample:
  "thread_count (metadata (ticket None None)) = None
   \<and> threadTerm (ticket None None) = 10
   \<and> computeSeverityScore (\<lambda>_. 0) 0 [ticket None None] = 40"
  by (simp add: severity_ticket) (simp add: threadTerm_def ticket_def)

text \<open>
  C5, amended: the scoring functions are defined on records with missing optional fields
  and score them as if absent vote and comment counts were 0, an absent tag list were
  empty and an absent thread count were 1; so for a reactive signal whose thread count is
  absent the thread term of its severity is \<open>min(1 * 10, 50) = 10\<close>.
\<close>

theorem absent_fields_default:
  "computeSeverityScore getTime now (map fillDefaults ps) = computeSeverityScore getTime now ps
   \<and> computeVoteMomentum (map fillDefaults ps) = computeVoteMomentum ps
   \<and> (\<forall>p. thread_count (metadata p) = None \<longrightarrow> threadTerm p = 10)"
  by (simp add: severity_fillDefaults voteMomentum_fillDefaults threadTerm_def)

theorem absent_fields_default_witness:
  "computeSeverityScore (\<lambda>_. 0) 0 [ticket None None]
     = computeSeverityScore (\<lambda>_. 0) 0 [ticket (Some []) (Some 1)]
   \<and> computeVoteMomentum [ticket None None] = computeVoteMomentum [ticket (Some []) (Some 1)]
   \<and> thread_count (metadata (ticket None None)) = None
   \<and> threadTerm (ticket None None) = 10"
proof -
  have fd: "map fillDefaults [ticket None None] = map fillDefaults [ticket (Some []) (Some 1)]"
    by (simp add: fillDefaults_def ticket_def)
  have none: "thread_count (metadata (ticket None None)) = None"
    by (simp add: ticket_def)
  note absent = absent_fields_default [of "\<lambda>_. 0" 0 "[ticket None None]"]
  note present = absent_fields_default [of "\<lambda>_. 0" 0 "[ticket (Some []) (Some 1)]"]
  from absent present have sev: "computeSeverityScore (\<lambda>_. 0) 0 [ticket None None]
     = computeSeverityScore (\<lambda>_. 0) 0 [ticket (Some []) (Some 1)]"
    unfolding fd by metis
  from absent present have vote: "computeVoteMomentum [ticket None None]
     = computeVoteMomentum [ticket (Some []) (Some 1)]"
    unfolding fd by metis
  from absent none have "threadTerm (ticket None None) = 10"
    by blast
  with sev vote none show ?thesis
    by blast
qed

section \<open>Emerging themes\<close>


lemma distinct_setAdd: "distinct xs \<Longrightarrow> distinct (setAdd x xs)"
  by (simp add: setAdd_def)

lemma set_setAdd: "set (setAdd x xs) = insert x (set xs)"
  by (auto simp: setAdd_def)









lemma sortedCandidates_frequent:
  "e \<in> set (sortedCandidates m mf) \<Longrightarrow> mf \<le> real (length (snd e))"
  by (simp add: sortedCandidates_def)










lemma darkMode_claims:
  "emergingClaims darkModeRequests [] 2 = [(''dark mode'', [0, 1, 2]), (''export csv'', [3, 4])]"
  by code_simp





text \<open>
  C10: the \<open>frequency\<close> of every emerging theme is the length of its \<open>data_points\<close>, the
  number of points it newly claims; this can be less than the number of unmatched points
  that contain the n-gram: of the five requests above, three contain \<open>export csv\<close>, and
  its theme has frequency 2, since \<open>dark mode\<close> has claimed one of them.
\<close>

theorem emerging_frequency_is_claimed_count:
  "(\<forall>e \<in> set (detectEmergingThemes ps sw mf). frequency e = length (et_data_points e))
   \<and> (\<exists>e \<in> set (detectEmergingThemes darkModeRequests [] 2).
        \<exists>pts. (ngram e, pts) \<in> set (buildNgramMap darkModeRequests [])
               \<and> frequency e < length pts)"
proof
  show "\<forall>e \<in> set (detectEmergingThemes ps sw mf). frequency e = length (et_data_points e)"
    by (auto simp: detectEmergingThemes_def toEmergingTheme_def)
  have m: "buildNgramMap darkModeRequests [] ! 2 = (''export csv'', [2, 3, 4])"
    and l: "2 < length (buildNgramMap darkModeRequests [])"
    by code_simp+
  have d: "detectEmergingThemes darkModeRequests [] 2 ! 1
            = \<lparr>ngram = ''export csv'', frequency = 2,
               et_data_points = map pointRef [darkModeRequests ! 3, darkModeRequests ! 4]\<rparr>"
    and dl: "1 < length (detectEmergingThemes darkModeRequests [] 2)"
    by (simp_all add: detectEmergingThemes_def darkMode_claims toEmergingTheme_def)
  from nth_mem [OF l] m have "(''export csv'', [2, 3, 4]) \<in> set (buildNgramMap darkModeRequests [])"
    by simp
  with nth_mem [OF dl] d
  show "\<exists>e \<in> set (detectEmergingThemes darkModeRequests [] 2).
        \<exists>pts. (ngram e, pts) \<in> set (buildNgramMap darkModeRequests [])
               \<and> frequency e < length pts"
    by (intro bexI [of _ "detectEmergingThemes darkModeRequests [] 2 ! 1"] exI [of _ "[2, 3, 4]"])
       simp_all
qed

theorem emerging_frequency_is_claimed_count_witness:
  "map frequency (detectEmergingThemes darkModeRequests [] 2) = [3, 2]
   \<and> map (length \<circ> et_data_points) (detectEmergingThemes darkModeRequests [] 2) = [3, 2]"
proof -
  have ev: "map frequency (detectEmergingThemes darkModeRequests [] 2) = [3, 2]"
    by (simp add: detectEmergingThemes_def darkMode_claims toEmergingTheme_def)
  from emerging_frequency_is_claimed_count [of darkModeRequests "[]" 2]
  have "map (length \<circ> et_data_points) (detectEmergingThemes darkModeRequests [] 2)
          = map frequency (detectEmergingThemes darkModeRequests [] 2)"
    by simp
  with ev show ?thesis by simp
qed

section \<open>PII scrubber: properties\<close>


















lemma luhn_examples:
  "\<not> passesLuhn ''4111111111111112''" "passesLuhn ''4111111111111111''"
  by code_simp+

lemma scrub_card_examples:
  "scrubPii ''4111111111111112''
     = \<lparr>scrubbedText = ''41111[PHONE REDACTED]'', piiCategoriesFound = [''phone'']\<rparr>"
  "scrubPii ''4111111111111111''
     = \<lparr>scrubbedText = ''[CC REDACTED]'', piiCategoriesFound = [''credit_card'']\<rparr>"
  by code_simp+

lemma ccCandidates_examples:
  "ccCandidates ''4111111111111112'' = [''4111111111111112'']"
  "ccCandidates ''4111111111111111'' = [''4111111111111111'']"
  by code_simp+

lemma credit_card_reported:
  "''credit_card'' \<in> set (piiCategoriesFound (scrubPii t))
     \<longleftrightarrow> (\<exists>m \<in> set (ccCandidates t). ccValid m)"
  by (simp add: scrubPii_def scrubPlain_def scrubCard_def ccCandidates_def afterSsn_def
      setAdd_def Let_def list_ex_iff)

text \<open>
  C3: \<open>credit_card\<close> is reported exactly when some span found by the credit-card pattern
  has 13 to 19 digits that pass the Luhn check, and the replacer substitutes the
  placeholder for exactly such spans; \<open>4111111111111112\<close> fails the check and is not
  redacted as a card, \<open>4111111111111111\<close> passes and is replaced.
\<close>

theorem luhn_gate:
  "(''credit_card'' \<in> set (piiCategoriesFound (scrubPii t))
      \<longleftrightarrow> (\<exists>m \<in> set (ccCandidates t).
             13 \<le> length (digitsOnly m) \<and> length (digitsOnly m) \<le> 19
             \<and> passesLuhn (digitsOnly m)))
   \<and> fst (scrubCard (s, cats)) = replaceAll ccPattern ccReplacer s
   \<and> ccReplacer m
       = (if 13 \<le> length (digitsOnly m) \<and> length (digitsOnly m) \<le> 19
             \<and> passesLuhn (digitsOnly m)
          then ''[CC REDACTED]'' else m)
   \<and> \<not> passesLuhn ''4111111111111112''
   \<and> scrubPii ''4111111111111112''
       = \<lparr>scrubbedText = ''41111[PHONE REDACTED]'', piiCategoriesFound = [''phone'']\<rparr>
   \<and> passesLuhn ''4111111111111111''
   \<and> scrubPii ''4111111111111111''
       = \<lparr>scrubbedText = ''[CC REDACTED]'', piiCategoriesFound = [''credit_card'']\<rparr>"
  by (simp add: credit_card_reported luhn_examples scrub_card_examples)
     (simp add: ccValid_def ccReplacer_def scrubCard_def replaceAll_def Let_def)

theorem luhn_gate_witness:
  "ccCandidates ''4111111111111111'' = [''4111111111111111'']
   \<and> ''credit_card'' \<in> set (piiCategoriesFound (scrubPii ''4111111111111111''))
   \<and> ccCandidates ''4111111111111112'' = [''4111111111111112'']
   \<and> ''credit_card'' \<notin> set (piiCategoriesFound (scrubPii ''4111111111111112''))
   \<and> ccReplacer ''4111111111111112'' = ''4111111111111112''
   \<and> ccReplacer ''4111111111111111'' = ''[CC REDACTED]''"
proof -
  have d: "digitsOnly ''4111111111111112'' = ''4111111111111112''"
    "digitsOnly ''4111111111111111'' = ''4111111111111111''"
    by code_simp+
  from luhn_gate [of "''4111111111111111''" "[]" "[]" "''4111111111111111''"]
    luhn_gate [of "''4111111111111112''" "[]" "[]" "''4111111111111112''"]
  show ?thesis
    by (simp add: ccCandidates_examples d luhn_examples)
qed

section \<open>Structure of the analysis\<close>

lemma themes_analyzeFeedback:
  "themes (analyzeFeedback getTime clock conversations featureRequests config)
     = sortThemes (unsortedThemes getTime clock conversations featureRequests config)"
  by (simp add: analyzeFeedback_def unsortedThemes_def themeMatchesOf_def dataPointsOf_def
      Let_def)

lemma buildThemes_entries:
  "buildThemes getTime clock ths tm
     = List.map_filter (themeEntry getTime clock ths tm) [0 ..< length ths]"
  unfolding buildThemes_def themeEntry_def Let_def by (rule refl)

lemma themeEntry_None:
  "themeEntry getTime clock ths tm i = None \<longleftrightarrow> tm (td_id (ths ! i)) = []"
  by (simp add: themeEntry_def buildTheme_def Let_def)


lemma set_map_filter: "set (List.map_filter f xs) = {y. \<exists>x \<in> set xs. f x = Some y}"
  by (induction xs) (auto split: option.splits)

lemma set_buildThemes:
  "set (buildThemes getTime clock ths tm)
     = {t. \<exists>i < length ths. themeEntry getTime clock ths tm i = Some t}"
  by (auto simp: buildThemes_entries set_map_filter)


section \<open>Order of the themes\<close>



lemma mset_sortThemes: "set (sortThemes ts) = set ts" "length (sortThemes ts) = length ts"
  by (simp_all add: sortThemes_def)


lemma example_matches:
  "map (themeMatchesOf [supportTicket] exampleRequests exampleConfig)
     [''calendar'', ''sync'', ''billing'']
     = [calendarPoints, calendarPoints, billingPoints]"
  by code_simp

lemma example_themes: "cfg_themes exampleConfig
  = [theme ''calendar'' ''calendar'', theme ''sync'' ''sync'', theme ''billing'' ''billing'']"
  by (simp add: exampleConfig_def)

lemma votes_calendar: "computeVoteMomentum calendarPoints = 4"
  by (simp add: computeVoteMomentum_def voteStep_def calendarPoints_def rq_def)

lemma votes_billing: "computeVoteMomentum billingPoints = 0"
  by (simp add: computeVoteMomentum_def voteStep_def billingPoints_def rq_def tk_def)

lemma severity_calendar: "computeSeverityScore g now calendarPoints = 0"
  by (simp add: computeSeverityScore_def calendarPoints_def rq_def)

lemma severity_billing:
  "computeSeverityScore epoch now billingPoints = min (30 * exp (- (now / 86400000) / 7)) 100"
  by (simp add: computeSeverityScore_def billingPoints_def rq_def tk_def pointScore_def
      threadTerm_def ageDays_def epoch_def)

lemma example_unsorted:
  "unsortedThemes epoch clock [supportTicket] exampleRequests exampleConfig
     = [scoredTheme ''calendar'' 0 3 False 100 0 100 65 calendarPoints,
        scoredTheme ''sync'' 0 3 False 100 0 100 65 calendarPoints,
        scoredTheme ''billing'' 1 1 True (round2 (200 / 3))
          (round2 (min (30 * exp (- (clock 2 / 86400000) / 7)) 100)) 0
          (round2 (priorityOf (200 / 3) (min (30 * exp (- (clock 2 / 86400000) / 7)) 100) 0 2))
          billingPoints]"
proof -
  from example_matches
  have tm: "themeMatchesOf [supportTicket] exampleRequests exampleConfig ''calendar'' = calendarPoints"
    "themeMatchesOf [supportTicket] exampleRequests exampleConfig ''sync'' = calendarPoints"
    "themeMatchesOf [supportTicket] exampleRequests exampleConfig ''billing'' = billingPoints"
    by simp_all
  have len: "length calendarPoints = 3" "length billingPoints = 2"
    "calendarPoints \<noteq> []" "billingPoints \<noteq> []"
    by (simp_all add: calendarPoints_def billingPoints_def)
  have src: "filter (\<lambda>p. dp_source p = REACTIVE) calendarPoints = []"
    "length (filter (\<lambda>p. dp_source p = PROACTIVE) calendarPoints) = 3"
    "length (filter (\<lambda>p. dp_source p = REACTIVE) billingPoints) = 1"
    "length (filter (\<lambda>p. dp_source p = PROACTIVE) billingPoints) = 1"
    by (simp_all add: calendarPoints_def billingPoints_def rq_def tk_def)
  have upt: "[0 ..< 3] = [0, 1, 2]"
    by (simp add: upt_rec)
  have r: "round2 100 = 100" "round2 0 = 0" "round2 65 = 65"
    by (simp_all add: round2_def)
  have two: "Suc (Suc 0) = 2"
    by simp
  show ?thesis
    unfolding unsortedThemes_def buildThemes_entries example_themes
    by (simp add: upt themeEntry_def buildTheme_def theme_def tm len src votes_calendar
        votes_billing severity_calendar severity_billing mathMax_def scoredTheme_def
        priorityOf_def r two Let_def)
qed

lemma round2_examples:
  "round2 (200 / 3) = 6667 / 100" "round2 30 = 30"
  "round2 (priorityOf (200 / 3) 30 0 2) = 6767 / 100"
  "round2 (priorityOf (200 / 3) 30 0 1) = 3383 / 100"
  "round2 (priorityOf (6667 / 100) 30 0 1) = 3383 / 100"
  by (simp_all add: round2_def priorityOf_def)

lemma example_unsorted_now:
  "unsortedThemes epoch (\<lambda>_. 0) [supportTicket] exampleRequests exampleConfig
     = [scoredTheme ''calendar'' 0 3 False 100 0 100 65 calendarPoints,
        scoredTheme ''sync'' 0 3 False 100 0 100 65 calendarPoints,
        scoredTheme ''billing'' 1 1 True (6667 / 100) 30 0 (6767 / 100) billingPoints]"
  by (simp add: example_unsorted round2_examples)

lemma example_sorted_now:
  "sort_key (\<lambda>t. - priority_score t)
     [scoredTheme ''calendar'' 0 3 False 100 0 100 65 calendarPoints,
      scoredTheme ''sync'' 0 3 False 100 0 100 65 calendarPoints,
      scoredTheme ''billing'' 1 1 True (6667 / 100) 30 0 (6767 / 100) billingPoints]
     = [scoredTheme ''billing'' 1 1 True (6667 / 100) 30 0 (6767 / 100) billingPoints,
        scoredTheme ''calendar'' 0 3 False 100 0 100 65 calendarPoints,
        scoredTheme ''sync'' 0 3 False 100 0 100 65 calendarPoints]"
  by (simp add: scoredTheme_def)


section \<open>Convergence boost\<close>




lemma themeEntry_fields:
  assumes "themeEntry getTime clock ths tm i = Some t"
  shows "frequency_score t
           = round2 (real (map (\<lambda>theme. length (tm (td_id theme))) ths ! i)
                     / real (mathMax (map (\<lambda>theme. length (tm (td_id theme))) ths) 1) * 100)"
    and "severity_score t = round2 (computeSeverityScore getTime (clock i) (tm (td_id (ths ! i))))"
    and "vote_momentum_score t
           = round2 (map (\<lambda>theme. computeVoteMomentum (tm (td_id theme))) ths ! i
                     / mathMax (map (\<lambda>theme. computeVoteMomentum (tm (td_id theme))) ths) 1 * 100)"
    and "convergent t
           = (0 < length (filter (\<lambda>p. dp_source p = REACTIVE) (tm (td_id (ths ! i))))
              \<and> 0 < length (filter (\<lambda>p. dp_source p = PROACTIVE) (tm (td_id (ths ! i)))))"
    and "data_points t = map pointRef (tm (td_id (ths ! i)))"
    and "priority_score t
           = round2 (priorityOf
               (real (map (\<lambda>theme. length (tm (td_id theme))) ths ! i)
                  / real (mathMax (map (\<lambda>theme. length (tm (td_id theme))) ths) 1) * 100)
               (computeSeverityScore getTime (clock i) (tm (td_id (ths ! i))))
               (map (\<lambda>theme. computeVoteMomentum (tm (td_id theme))) ths ! i
                  / mathMax (map (\<lambda>theme. computeVoteMomentum (tm (td_id theme))) ths) 1 * 100)
               (if convergent t then 2 else 1))"
    and "tm (td_id (ths ! i)) \<noteq> []"
  using assms
  by (auto simp: themeEntry_def buildTheme_def Let_def split: if_splits)





section \<open>Normalization\<close>

lemma mathMax_Max: "xs \<noteq> [] \<Longrightarrow> mathMax xs d = max (Max (set xs)) d"
proof -
  assume "xs \<noteq> []"
  have "mathMax xs d = Max (set (d # xs))"
    unfolding mathMax_def by (rule Max.set_eq_fold [symmetric])
  also from \<open>xs \<noteq> []\<close> have "\<dots> = max d (Max (set xs))"
    by simp
  finally show ?thesis
    by (simp add: max.commute)
qed

lemma round2_100: "round2 100 = 100"
  by (simp add: round2_def)

lemma themeEntry_normalized:
  assumes i: "i < length ths" and t: "themeEntry getTime clock ths tm i = Some t"
  shows "frequency_score t
           = round2 (real (frequencyCountsOf ths tm ! i)
                     / real (Max (set (frequencyCountsOf ths tm))) * 100)"
    and "vote_momentum_score t
           = round2 (rawVoteMomentumsOf ths tm ! i
                     / max (Max (set (rawVoteMomentumsOf ths tm))) 1 * 100)"
    and "frequencyCountsOf ths tm ! i = Max (set (frequencyCountsOf ths tm))
           \<Longrightarrow> frequency_score t = 100"
    and "rawVoteMomentumsOf ths tm ! i = Max (set (rawVoteMomentumsOf ths tm))
           \<Longrightarrow> 1 \<le> rawVoteMomentumsOf ths tm ! i \<Longrightarrow> vote_momentum_score t = 100"
proof -
  note fields = themeEntry_fields [OF t]
  from i have ne: "ths \<noteq> []" by auto
  then have ne': "frequencyCountsOf ths tm \<noteq> []" "rawVoteMomentumsOf ths tm \<noteq> []"
    by (simp_all add: frequencyCountsOf_def rawVoteMomentumsOf_def)
  from i fields(7) have pos: "1 \<le> frequencyCountsOf ths tm ! i"
    by (simp add: frequencyCountsOf_def Suc_le_eq)
  from i have "frequencyCountsOf ths tm ! i \<in> set (frequencyCountsOf ths tm)"
    by (simp add: frequencyCountsOf_def)
  then have "frequencyCountsOf ths tm ! i \<le> Max (set (frequencyCountsOf ths tm))"
    by simp
  with pos have "1 \<le> Max (set (frequencyCountsOf ths tm))"
    by linarith
  with ne'(1) have mf: "mathMax (frequencyCountsOf ths tm) 1 = Max (set (frequencyCountsOf ths tm))"
    by (simp add: mathMax_Max)
  from ne'(2) have mv: "mathMax (rawVoteMomentumsOf ths tm) 1
      = max (Max (set (rawVoteMomentumsOf ths tm))) 1"
    by (rule mathMax_Max)
  from fields(1) mf
  show f: "frequency_score t
           = round2 (real (frequencyCountsOf ths tm ! i)
                     / real (Max (set (frequencyCountsOf ths tm))) * 100)"
    by (simp add: frequencyCountsOf_def)
  from fields(3) mv
  show v: "vote_momentum_score t
           = round2 (rawVoteMomentumsOf ths tm ! i
                     / max (Max (set (rawVoteMomentumsOf ths tm))) 1 * 100)"
    by (simp add: rawVoteMomentumsOf_def)
  show "frequency_score t = 100"
    if "frequencyCountsOf ths tm ! i = Max (set (frequencyCountsOf ths tm))"
    using that pos by (simp add: f round2_100)
  show "vote_momentum_score t = 100"
    if "rawVoteMomentumsOf ths tm ! i = Max (set (rawVoteMomentumsOf ths tm))"
      and "1 \<le> rawVoteMomentumsOf ths tm ! i"
    using that by (simp add: v round2_100 max_absorb1)
qed

text \<open>
  C6, amended: only themes with matched points are in the result. The frequency score of a
  theme is its count divided by the largest count over all themes, times 100, so the theme
  with the most matched points has frequency score 100. The vote momentum score is the raw
  value divided by the larger of 1 and the largest raw value, times 100, so the theme with
  the largest raw value has score 100 when that value is at least 1.
\<close>

theorem scores_normalized:
  "(\<forall>t \<in> set (themes (analyzeFeedback getTime clock conversations featureRequests config)).
      data_points t \<noteq> [])
   \<and> set (themes (analyzeFeedback getTime clock conversations featureRequests config))
       = {t. \<exists>i < length (cfg_themes config).
               themeEntry getTime clock (cfg_themes config)
                 (themeMatchesOf conversations featureRequests config) i = Some t}
   \<and> (\<forall>i < length (cfg_themes config).
        (themeEntry getTime clock (cfg_themes config)
           (themeMatchesOf conversations featureRequests config) i = None)
        = (themeMatchesOf conversations featureRequests config (td_id (cfg_themes config ! i)) = []))
   \<and> (\<forall>i < length (cfg_themes config). \<forall>t.
        themeEntry getTime clock (cfg_themes config)
          (themeMatchesOf conversations featureRequests config) i = Some t \<longrightarrow>
          data_points t
            = map pointRef (themeMatchesOf conversations featureRequests config
                              (td_id (cfg_themes config ! i)))
          \<and> frequency_score t
              = round2 (real (frequencyCountsOf (cfg_themes config)
                                (themeMatchesOf conversations featureRequests config) ! i)
                        / real (Max (set (frequencyCountsOf (cfg_themes config)
                                           (themeMatchesOf conversations featureRequests config))))
                        * 100)
          \<and> vote_momentum_score t
              = round2 (rawVoteMomentumsOf (cfg_themes config)
                          (themeMatchesOf conversations featureRequests config) ! i
                        / max (Max (set (rawVoteMomentumsOf (cfg_themes config)
                                          (themeMatchesOf conversations featureRequests config)))) 1
                        * 100)
          \<and> (frequencyCountsOf (cfg_themes config)
                 (themeMatchesOf conversations featureRequests config) ! i
               = Max (set (frequencyCountsOf (cfg_themes config)
                            (themeMatchesOf conversations featureRequests config)))
               \<longrightarrow> frequency_score t = 100)
          \<and> (rawVoteMomentumsOf (cfg_themes config)
                 (themeMatchesOf conversations featureRequests config) ! i
               = Max (set (rawVoteMomentumsOf (cfg_themes config)
                            (themeMatchesOf conversations featureRequests config)))
               \<and> 1 \<le> rawVoteMomentumsOf (cfg_themes config)
                         (themeMatchesOf conversations featureRequests config) ! i
               \<longrightarrow> vote_momentum_score t = 100))"
proof (intro conjI allI impI ballI)
  show eq: "set (themes (analyzeFeedback getTime clock conversations featureRequests config))
       = {t. \<exists>i < length (cfg_themes config).
               themeEntry getTime clock (cfg_themes config)
                 (themeMatchesOf conversations featureRequests config) i = Some t}"
    by (simp add: themes_analyzeFeedback mset_sortThemes unsortedThemes_def set_buildThemes)
  show "data_points t \<noteq> []"
    if "t \<in> set (themes (analyzeFeedback getTime clock conversations featureRequests config))"
    for t
  proof -
    from that eq obtain i where "themeEntry getTime clock (cfg_themes config)
                 (themeMatchesOf conversations featureRequests config) i = Some t"
      by blast
    from themeEntry_fields(5,7) [OF this] show ?thesis
      by simp
  qed
next
  fix i
  show "(themeEntry getTime clock (cfg_themes config)
           (themeMatchesOf conversations featureRequests config) i = None)
        = (themeMatchesOf conversations featureRequests config (td_id (cfg_themes config ! i)) = [])"
    by (rule themeEntry_None)
next
  fix i t
  assume i: "i < length (cfg_themes config)"
    and t: "themeEntry getTime clock (cfg_themes config)
          (themeMatchesOf conversations featureRequests config) i = Some t"
  from themeEntry_fields(5) [OF t]
  show "data_points t
            = map pointRef (themeMatchesOf conversations featureRequests config
                              (td_id (cfg_themes config ! i)))" .
  from themeEntry_normalized(1) [OF i t]
  show "frequency_score t
              = round2 (real (frequencyCountsOf (cfg_themes config)
                                (themeMatchesOf conversations featureRequests config) ! i)
                        / real (Max (set (frequencyCountsOf (cfg_themes config)
                                           (themeMatchesOf conversations featureRequests config))))
                        * 100)" .
  from themeEntry_normalized(2) [OF i t]
  show "vote_momentum_score t
              = round2 (rawVoteMomentumsOf (cfg_themes config)
                          (themeMatchesOf conversations featureRequests config) ! i
                        / max (Max (set (rawVoteMomentumsOf (cfg_themes config)
                                          (themeMatchesOf conversations featureRequests config)))) 1
                        * 100)" .
  show "frequency_score t = 100"
    if "frequencyCountsOf (cfg_themes config)
                 (themeMatchesOf conversations featureRequests config) ! i
               = Max (set (frequencyCountsOf (cfg_themes config)
                            (themeMatchesOf conversations featureRequests config)))"
    using themeEntry_normalized(3) [OF i t that] .
  show "vote_momentum_score t = 100"
    if "rawVoteMomentumsOf (cfg_themes config)
                 (themeMatchesOf conversations featureRequests config) ! i
               = Max (set (rawVoteMomentumsOf (cfg_themes config)
                            (themeMatchesOf conversations featureRequests config)))
               \<and> 1 \<le> rawVoteMomentumsOf (cfg_themes config)
                         (themeMatchesOf conversations featureRequests config) ! i"
    using themeEntry_normalized(4) [OF i t] that by blast
qed

lemma example_raw_values:
  "frequencyCountsOf (cfg_themes exampleConfig)
     (themeMatchesOf [supportTicket] exampleRequests exampleConfig) = [3, 3, 2]"
  "rawVoteMomentumsOf (cfg_themes exampleConfig)
     (themeMatchesOf [supportTicket] exampleRequests exampleConfig) = [4, 4, 0]"
proof -
  from example_matches
  have tm: "themeMatchesOf [supportTicket] exampleRequests exampleConfig ''calendar'' = calendarPoints"
    "themeMatchesOf [supportTicket] exampleRequests exampleConfig ''sync'' = calendarPoints"
    "themeMatchesOf [supportTicket] exampleRequests exampleConfig ''billing'' = billingPoints"
    by simp_all
  show "frequencyCountsOf (cfg_themes exampleConfig)
     (themeMatchesOf [supportTicket] exampleRequests exampleConfig) = [3, 3, 2]"
    by (simp add: frequencyCountsOf_def example_themes theme_def tm calendarPoints_def
        billingPoints_def)
  show "rawVoteMomentumsOf (cfg_themes exampleConfig)
     (themeMatchesOf [supportTicket] exampleRequests exampleConfig) = [4, 4, 0]"
    by (simp add: rawVoteMomentumsOf_def example_themes theme_def tm votes_calendar
        votes_billing)
qed

lemma example_first_entry:
  "themeEntry epoch (\<lambda>_. 0) (cfg_themes exampleConfig)
     (themeMatchesOf [supportTicket] exampleRequests exampleConfig) 0
     = Some (scoredTheme ''calendar'' 0 3 False 100 0 100 65 calendarPoints)"
proof -
  from example_matches
  have tm: "themeMatchesOf [supportTicket] exampleRequests exampleConfig ''calendar'' = calendarPoints"
    "themeMatchesOf [supportTicket] exampleRequests exampleConfig ''sync'' = calendarPoints"
    "themeMatchesOf [supportTicket] exampleRequests exampleConfig ''billing'' = billingPoints"
    by simp_all
  have len: "length calendarPoints = 3" "length billingPoints = 2" "calendarPoints \<noteq> []"
    by (simp_all add: calendarPoints_def billingPoints_def)
  have src: "filter (\<lambda>p. dp_source p = REACTIVE) calendarPoints = []"
    "length (filter (\<lambda>p. dp_source p = PROACTIVE) calendarPoints) = 3"
    by (simp_all add: calendarPoints_def rq_def)
  have r: "round2 100 = 100" "round2 0 = 0" "round2 65 = 65"
    by (simp_all add: round2_def)
  show ?thesis
    unfolding example_themes
    by (simp add: themeEntry_def buildTheme_def theme_def tm len src votes_calendar
        votes_billing severity_calendar mathMax_def scoredTheme_def priorityOf_def r Let_def)
qed

theorem scores_normalized_witness:
  "frequencyCountsOf (cfg_themes exampleConfig)
     (themeMatchesOf [supportTicket] exampleRequests exampleConfig) = [3, 3, 2]
   \<and> rawVoteMomentumsOf (cfg_themes exampleConfig)
       (themeMatchesOf [supportTicket] exampleRequests exampleConfig) = [4, 4, 0]
   \<and> themeEntry epoch (\<lambda>_. 0) (cfg_themes exampleConfig)
       (themeMatchesOf [supportTicket] exampleRequests exampleConfig) 0
       = Some (scoredTheme ''calendar'' 0 3 False 100 0 100 65 calendarPoints)
   \<and> frequency_score (scoredTheme ''calendar'' 0 3 False 100 0 100 65 calendarPoints) = 100
   \<and> vote_momentum_score (scoredTheme ''calendar'' 0 3 False 100 0 100 65 calendarPoints) = 100"
proof -
  have len: "0 < length (cfg_themes exampleConfig)"
    by (simp add: example_themes)
  have mx: "([3, 3, 2] :: nat list) ! 0 = Max (set [3, 3, 2])"
    "([4, 4, 0] :: real list) ! 0 = Max (set [4, 4, 0]) \<and> 1 \<le> ([4, 4, 0] :: real list) ! 0"
    by simp_all
  from scores_normalized [of epoch "\<lambda>_. 0" "[supportTicket]" exampleRequests exampleConfig]
    len example_first_entry mx
  have "frequency_score (scoredTheme ''calendar'' 0 3 False 100 0 100 65 calendarPoints) = 100"
    and "vote_momentum_score (scoredTheme ''calendar'' 0 3 False 100 0 100 65 calendarPoints) = 100"
    unfolding example_raw_values by blast+
  with example_raw_values example_first_entry show ?thesis
    by blast
qed

lemma singleVote_matches:
  "map (themeMatchesOf [] singleVote exampleConfig) [''calendar'', ''sync'', ''billing'']
     = [singleVotePoints, singleVotePoints, []]"
  by code_simp

lemma votes_singleVote: "computeVoteMomentum singleVotePoints = 4 / 5"
  by (simp add: computeVoteMomentum_def voteStep_def singleVotePoints_def rq_def)

lemma singleVote_unsorted:
  "unsortedThemes epoch clock [] singleVote exampleConfig
     = [scoredTheme ''calendar'' 0 1 False 100 0 80 59 singleVotePoints,
        scoredTheme ''sync'' 0 1 False 100 0 80 59 singleVotePoints]"
proof -
  from singleVote_matches
  have tm: "themeMatchesOf [] singleVote exampleConfig ''calendar'' = singleVotePoints"
    "themeMatchesOf [] singleVote exampleConfig ''sync'' = singleVotePoints"
    "themeMatchesOf [] singleVote exampleConfig ''billing'' = []"
    by simp_all
  have len: "length singleVotePoints = 1" "singleVotePoints \<noteq> []"
    by (simp_all add: singleVotePoints_def)
  have src: "filter (\<lambda>p. dp_source p = REACTIVE) singleVotePoints = []"
    "length (filter (\<lambda>p. dp_source p = PROACTIVE) singleVotePoints) = 1"
    by (simp_all add: singleVotePoints_def rq_def)
  have sev: "computeSeverityScore epoch now singleVotePoints = 0" for now
    by (simp add: computeSeverityScore_def src)
  have votes_none: "computeVoteMomentum [] = 0"
    by (simp add: computeVoteMomentum_def)
  have upt: "[0 ..< 3] = [0, 1, 2]"
    by (simp add: upt_rec)
  have r: "round2 100 = 100" "round2 0 = 0" "round2 80 = 80" "round2 59 = 59"
    by (simp_all add: round2_def)
  show ?thesis
    unfolding unsortedThemes_def buildThemes_entries example_themes
    by (simp add: upt themeEntry_def buildTheme_def theme_def tm len src votes_singleVote
        votes_none sev mathMax_def scoredTheme_def priorityOf_def r Let_def)
qed

text \<open>
  C6, as stated, fails for vote momentum: with one feature request of one vote the largest
  raw vote momentum is 0.8, the divisor \<open>Math.max(..., 1)\<close> is 1, and the score of the
  themes with that raw value is 80.
\<close>

theorem vote_momentum_counterexample:
  "themes (analyzeFeedback epoch (\<lambda>_. 0) [] singleVote exampleConfig)
     = [scoredTheme ''calendar'' 0 1 False 100 0 80 59 singleVotePoints,
        scoredTheme ''sync'' 0 1 False 100 0 80 59 singleVotePoints]
   \<and> rawVoteMomentumsOf (cfg_themes exampleConfig) (themeMatchesOf [] singleVote exampleConfig)
       = [4 / 5, 4 / 5, 0]"
proof -
  have "sort_key (\<lambda>t. - priority_score t)
          [scoredTheme ''calendar'' 0 1 False 100 0 80 59 singleVotePoints,
           scoredTheme ''sync'' 0 1 False 100 0 80 59 singleVotePoints]
        = [scoredTheme ''calendar'' 0 1 False 100 0 80 59 singleVotePoints,
           scoredTheme ''sync'' 0 1 False 100 0 80 59 singleVotePoints]"
    by (simp add: scoredTheme_def)
  then have "themes (analyzeFeedback epoch (\<lambda>_. 0) [] singleVote exampleConfig)
     = [scoredTheme ''calendar'' 0 1 False 100 0 80 59 singleVotePoints,
        scoredTheme ''sync'' 0 1 False 100 0 80 59 singleVotePoints]"
    unfolding themes_analyzeFeedback sortThemes_def singleVote_unsorted .
  moreover from singleVote_matches
  have "rawVoteMomentumsOf (cfg_themes exampleConfig) (themeMatchesOf [] singleVote exampleConfig)
       = [4 / 5, 4 / 5, 0]"
    by (simp add: rawVoteMomentumsOf_def example_themes theme_def votes_singleVote
        computeVoteMomentum_def [of "[]"])
  ultimately show ?thesis
    by blast
qed

section \<open>Dependence on the clock\<close>

lemma map_filter_cong:
  "(\<And>x. x \<in> set xs \<Longrightarrow> f x = g x) \<Longrightarrow> List.map_filter f xs = List.map_filter g xs"
  by (induction xs) (simp_all split: option.splits)

lemma map_map_filter:
  "map f (List.map_filter h xs) = List.map_filter (map_option f \<circ> h) xs"
  by (induction xs) (simp_all split: option.splits)

lemma themeEntry_clock:
  "clock1 i = clock2 i \<Longrightarrow> themeEntry getTime clock1 ths tm i = themeEntry getTime clock2 ths tm i"
  by (simp add: themeEntry_def)

lemma buildThemes_clock:
  assumes "\<forall>i < length ths. clock1 i = clock2 i"
  shows "buildThemes getTime clock1 ths tm = buildThemes getTime clock2 ths tm"
  unfolding buildThemes_entries
  using assms by (intro map_filter_cong themeEntry_clock) simp

lemma themeEntry_severity:
  assumes "computeSeverityScore getTime (clock1 i) (tm (td_id (ths ! i)))
             = computeSeverityScore getTime (clock2 i) (tm (td_id (ths ! i)))"
  shows "themeEntry getTime clock1 ths tm i = themeEntry getTime clock2 ths tm i"
  using assms by (simp add: themeEntry_def buildTheme_def Let_def)

lemma clockFree_themeEntry:
  "map_option clockFree (themeEntry getTime clock1 ths tm i)
     = map_option clockFree (themeEntry getTime clock2 ths tm i)"
  by (simp add: themeEntry_def buildTheme_def Let_def clockFree_def)

lemma clockFree_buildThemes:
  "map clockFree (buildThemes getTime clock1 ths tm)
     = map clockFree (buildThemes getTime clock2 ths tm)"
  unfolding buildThemes_entries map_map_filter
  by (intro map_filter_cong) (simp add: clockFree_themeEntry)

lemma analyzeFeedback_themes:
  "analyzeFeedback getTime clock1 conversations featureRequests config
     = (analyzeFeedback getTime clock2 conversations featureRequests config)
         \<lparr>themes := themes (analyzeFeedback getTime clock1 conversations featureRequests config)\<rparr>"
  by (simp add: analyzeFeedback_def Let_def)

text \<open>Only points of the input are matched to a theme.\<close>

lemma matchStep_subset:
  "dp \<in> S \<Longrightarrow> \<forall>k. set (fst st k) \<subseteq> S \<Longrightarrow> \<forall>k. set (fst (matchStep dp th st) k) \<subseteq> S"
  by (simp add: matchStep_def)

lemma fold_matchStep_subset:
  "dp \<in> S \<Longrightarrow> \<forall>k. set (fst st k) \<subseteq> S \<Longrightarrow> \<forall>k. set (fst (fold (matchStep dp) ths st) k) \<subseteq> S"
proof (induction ths arbitrary: st)
  case Nil
  then show ?case by simp
next
  case (Cons th ths)
  from matchStep_subset [OF Cons.prems] Cons.IH [OF Cons.prems(1)] show ?case
    by simp
qed

lemma matchPoints_subset_aux:
  "set dps \<subseteq> S \<Longrightarrow> \<forall>k. set (fst st k) \<subseteq> S
     \<Longrightarrow> \<forall>k. set (fst (fold (\<lambda>dp st. fold (matchStep dp) ths st) dps st) k) \<subseteq> S"
proof (induction dps arbitrary: st)
  case Nil
  then show ?case by simp
next
  case (Cons dp dps)
  from Cons.prems have "dp \<in> S" "set dps \<subseteq> S" by simp_all
  from Cons.IH [OF this(2) fold_matchStep_subset [OF this(1) Cons.prems(2)]] show ?case
    by simp
qed

lemma matchPoints_subset: "set (fst (matchPoints ths dps) k) \<subseteq> set dps"
  using matchPoints_subset_aux [of dps "set dps" "(\<lambda>_. [], [])" ths]
  by (simp add: matchPoints_def)

lemma severity_no_reactive:
  "\<forall>p \<in> set points. dp_source p = PROACTIVE \<Longrightarrow> computeSeverityScore getTime now points = 0"
proof -
  assume "\<forall>p \<in> set points. dp_source p = PROACTIVE"
  then have "filter (\<lambda>p. dp_source p = REACTIVE) points = []"
    by (auto simp: filter_empty_conv)
  then show ?thesis
    by (simp add: computeSeverityScore_def)
qed

lemma no_conversations_proactive:
  "\<forall>p \<in> set (themeMatchesOf [] featureRequests config k). dp_source p = PROACTIVE"
proof
  fix p
  assume "p \<in> set (themeMatchesOf [] featureRequests config k)"
  with matchPoints_subset [of "cfg_themes config" "dataPointsOf [] featureRequests" k]
  have "p \<in> set (map featureRequestToDataPoint featureRequests)"
    by (auto simp: themeMatchesOf_def dataPointsOf_def)
  then show "dp_source p = PROACTIVE"
    by (auto simp: featureRequestToDataPoint_def Let_def)
qed

lemma no_conversations_clock:
  "analyzeFeedback getTime clock1 [] featureRequests config
     = analyzeFeedback getTime clock2 [] featureRequests config"
proof -
  have "themeEntry getTime clock1 (cfg_themes config) (themeMatchesOf [] featureRequests config)
      = themeEntry getTime clock2 (cfg_themes config) (themeMatchesOf [] featureRequests config)"
    by (intro ext themeEntry_severity)
       (simp add: severity_no_reactive no_conversations_proactive)
  then have "unsortedThemes getTime clock1 [] featureRequests config
      = unsortedThemes getTime clock2 [] featureRequests config"
    by (simp add: unsortedThemes_def buildThemes_entries)
  then have "themes (analyzeFeedback getTime clock1 [] featureRequests config)
      = themes (analyzeFeedback getTime clock2 [] featureRequests config)"
    by (simp add: themes_analyzeFeedback)
  with analyzeFeedback_themes [of getTime clock1 "[]" featureRequests config clock2]
  show ?thesis
    by simp
qed

text \<open>
  C8, amended: \<open>analyzeFeedback\<close> is a function of its inputs and of the readings of the
  clock that \<open>computeSeverityScore\<close> takes. Runs on the same input whose readings agree
  give the same result; without conversations the result does not depend on the clock;
  in general only the \<open>severity_score\<close> and \<open>priority_score\<close> of the themes, and with
  them the order of the themes, depend on it.
\<close>

theorem clock_dependence:
  "((\<forall>i < length (cfg_themes config). clock1 i = clock2 i) \<longrightarrow>
      analyzeFeedback getTime clock1 conversations featureRequests config
        = analyzeFeedback getTime clock2 conversations featureRequests config)
   \<and> analyzeFeedback getTime clock1 [] featureRequests config
       = analyzeFeedback getTime clock2 [] featureRequests config
   \<and> (analyzeFeedback getTime clock1 conversations featureRequests config)\<lparr>themes := []\<rparr>
       = (analyzeFeedback getTime clock2 conversations featureRequests config)\<lparr>themes := []\<rparr>
   \<and> map clockFree (unsortedThemes getTime clock1 conversations featureRequests config)
       = map clockFree (unsortedThemes getTime clock2 conversations featureRequests config)"
proof (intro conjI impI)
  assume "\<forall>i < length (cfg_themes config). clock1 i = clock2 i"
  from buildThemes_clock [OF this]
  have "themes (analyzeFeedback getTime clock1 conversations featureRequests config)
      = themes (analyzeFeedback getTime clock2 conversations featureRequests config)"
    by (simp add: themes_analyzeFeedback unsortedThemes_def)
  with analyzeFeedback_themes [of getTime clock1 conversations featureRequests config clock2]
  show "analyzeFeedback getTime clock1 conversations featureRequests config
        = analyzeFeedback getTime clock2 conversations featureRequests config"
    by simp
next
  show "analyzeFeedback getTime clock1 [] featureRequests config
       = analyzeFeedback getTime clock2 [] featureRequests config"
    by (rule no_conversations_clock)
  show "(analyzeFeedback getTime clock1 conversations featureRequests config)\<lparr>themes := []\<rparr>
       = (analyzeFeedback getTime clock2 conversations featureRequests config)\<lparr>themes := []\<rparr>"
    by (simp add: analyzeFeedback_def Let_def)
  show "map clockFree (unsortedThemes getTime clock1 conversations featureRequests config)
       = map clockFree (unsortedThemes getTime clock2 conversations featureRequests config)"
    unfolding unsortedThemes_def by (rule clockFree_buildThemes)
qed

theorem clock_dependence_witness:
  "analyzeFeedback epoch (\<lambda>_. 0) [supportTicket] exampleRequests exampleConfig
     = analyzeFeedback epoch (\<lambda>i. if i < 3 then 0 else 1) [supportTicket] exampleRequests
         exampleConfig
   \<and> themes (analyzeFeedback epoch (\<lambda>i. if i < 3 then 0 else 1) [supportTicket]
               exampleRequests exampleConfig)
     = [scoredTheme ''billing'' 1 1 True (6667 / 100) 30 0 (6767 / 100) billingPoints,
        scoredTheme ''calendar'' 0 3 False 100 0 100 65 calendarPoints,
        scoredTheme ''sync'' 0 3 False 100 0 100 65 calendarPoints]"
proof -
  have agree: "\<forall>i < length (cfg_themes exampleConfig). (\<lambda>_. 0 :: real) i = (if i < 3 then 0 else 1)"
    by (simp add: example_themes)
  from clock_dependence [of exampleConfig "\<lambda>_. 0" "\<lambda>i. if i < 3 then 0 else 1" epoch
      "[supportTicket]" exampleRequests] agree
  have eq: "analyzeFeedback epoch (\<lambda>_. 0) [supportTicket] exampleRequests exampleConfig
     = analyzeFeedback epoch (\<lambda>i. if i < 3 then 0 else 1) [supportTicket] exampleRequests
         exampleConfig"
    by blast
  have "themes (analyzeFeedback epoch (\<lambda>_. 0) [supportTicket] exampleRequests exampleConfig)
     = [scoredTheme ''billing'' 1 1 True (6667 / 100) 30 0 (6767 / 100) billingPoints,
        scoredTheme ''calendar'' 0 3 False 100 0 100 65 calendarPoints,
        scoredTheme ''sync'' 0 3 False 100 0 100 65 calendarPoints]"
    unfolding themes_analyzeFeedback sortThemes_def example_unsorted_now example_sorted_now ..
  with eq show ?thesis
    by simp
qed

lemma round2_mono: "x \<le> y \<Longrightarrow> round2 x \<le> round2 y"
  by (simp add: round2_def divide_right_mono floor_mono)

lemma exp_minus_one_half: "exp (- 1 :: real) \<le> 1 / 2"
proof -
  have "(2 :: real) \<le> exp 1"
    using exp_ge_add_one_self [of "1 :: real"] by simp
  then have "inverse (exp (1 :: real)) \<le> inverse 2"
    by (intro le_imp_inverse_le) simp_all
  then show ?thesis
    by (simp add: exp_minus)
qed

lemma severity_week_old: "round2 (min (30 * exp (- (604800000 / 86400000) / 7)) 100) \<le> 15"
proof -
  have "min (30 * exp (- (604800000 / 86400000) / 7 :: real)) 100 \<le> 15"
    using exp_minus_one_half by simp
  from round2_mono [OF this] show ?thesis
    by (simp add: round2_def)
qed

text \<open>
  C8, as stated, fails: the clock is read inside \<open>computeSeverityScore\<close>, so two runs on
  the same conversations, feature requests and configuration differ when the clock has
  advanced; here the severity of the theme \<open>billing\<close> is 30 at once and at most 15 a week
  later.
\<close>

theorem clock_dependence_counterexample:
  "analyzeFeedback epoch (\<lambda>_. 0) [supportTicket] exampleRequests exampleConfig
     \<noteq> analyzeFeedback epoch (\<lambda>_. 604800000) [supportTicket] exampleRequests exampleConfig
   \<and> map severity_score
        (unsortedThemes epoch (\<lambda>_. 0) [supportTicket] exampleRequests exampleConfig)
       = [0, 0, 30]
   \<and> take 2 (map severity_score
        (unsortedThemes epoch (\<lambda>_. 604800000) [supportTicket] exampleRequests exampleConfig))
       = [0, 0]
   \<and> map severity_score
        (unsortedThemes epoch (\<lambda>_. 604800000) [supportTicket] exampleRequests exampleConfig) ! 2
       \<le> 15"
proof -
  let ?A = "\<lambda>c. analyzeFeedback epoch c [supportTicket] exampleRequests exampleConfig"
  let ?U = "\<lambda>c. unsortedThemes epoch c [supportTicket] exampleRequests exampleConfig"
  have now: "map severity_score (?U (\<lambda>_. 0)) = [0, 0, 30]"
    by (simp add: example_unsorted_now scoredTheme_def)
  have week: "map severity_score (?U (\<lambda>_. 604800000))
       = [0, 0, round2 (min (30 * exp (- (604800000 / 86400000) / 7)) 100)]"
    by (simp add: example_unsorted scoredTheme_def)
  from arg_cong [OF now, of set]
  have "30 \<in> severity_score ` set (themes (?A (\<lambda>_. 0)))"
    by (simp add: themes_analyzeFeedback mset_sortThemes)
  moreover from arg_cong [OF week, of set] severity_week_old
  have "30 \<notin> severity_score ` set (themes (?A (\<lambda>_. 604800000)))"
    by (simp add: themes_analyzeFeedback mset_sortThemes)
  ultimately have "?A (\<lambda>_. 0) \<noteq> ?A (\<lambda>_. 604800000)"
    by metis
  with now week severity_week_old show ?thesis
    by simp
qed

end
